theory Spec2Isabelle
  imports Main
begin

section \<open>Python values\<close>

text \<open>
  A Python \<^verbatim>\<open>str\<close> is a sequence of Unicode code points, lone surrogates included.
  HOL's \<open>char\<close> is a byte, so a \<^verbatim>\<open>str\<close> is modelled as the list of its code points;
  \<open>ustr\<close> embeds an ASCII literal. A \<^verbatim>\<open>bytes\<close> object is a list of HOL characters.
\<close>

type_synonym pystr = "nat list"

definition ustr :: "string \<Rightarrow> pystr" where
  "ustr s = map of_char s"

text \<open>
  \<^verbatim>\<open>str.isspace\<close> of a single code point: the code points CPython lists as whitespace
  (bidirectional class WS, B or S, or category Zs).
\<close>

definition py_isspace :: "nat \<Rightarrow> bool" where
  "py_isspace c \<longleftrightarrow>
     (9 \<le> c \<and> c \<le> 13) \<or> (28 \<le> c \<and> c \<le> 32) \<or> c = 133 \<or> c = 160 \<or> c = 5760 \<or>
     (8192 \<le> c \<and> c \<le> 8202) \<or> c = 8232 \<or> c = 8233 \<or> c = 8239 \<or> c = 8287 \<or> c = 12288"

text \<open>\<^verbatim>\<open>s.strip()\<close> without argument: whitespace is dropped from both ends.\<close>

definition py_lstrip :: "pystr \<Rightarrow> pystr" where
  "py_lstrip s = dropWhile py_isspace s"

definition py_rstrip :: "pystr \<Rightarrow> pystr" where
  "py_rstrip s = rev (dropWhile py_isspace (rev s))"

definition py_strip :: "pystr \<Rightarrow> pystr" where
  "py_strip s = py_rstrip (py_lstrip s)"

text \<open>\<^verbatim>\<open>s.rstrip("/")\<close>: every trailing slash (code point 47) is dropped.\<close>

definition rstrip_slash :: "pystr \<Rightarrow> pystr" where
  "rstrip_slash s = rev (dropWhile (\<lambda>c. c = 47) (rev s))"

text \<open>\<^verbatim>\<open>str(n)\<close> of an integer, as an f-string renders it: decimal digits, a minus sign first.\<close>

fun py_digits :: "nat \<Rightarrow> pystr" where
  "py_digits n = (if n < 10 then [48 + n] else py_digits (n div 10) @ [48 + n mod 10])"

declare py_digits.simps [simp del]

definition py_str_int :: "int \<Rightarrow> pystr" where
  "py_str_int i = (if i < 0 then 45 # py_digits (nat (- i)) else py_digits (nat i))"


section \<open>Metering types\<close>

text \<open>
  \<^verbatim>\<open>InterruptedKind\<close> and \<^verbatim>\<open>OCRTokensMetering\<close> are imported by \<^verbatim>\<open>error.py\<close> from
  \<^verbatim>\<open>pdf_craft/metering.py\<close>. Their shape is read off the way \<^verbatim>\<open>error.py\<close> uses them: two
  enumeration members, and a value built from the keywords \<^verbatim>\<open>input_tokens\<close> and
  \<^verbatim>\<open>output_tokens\<close>.
\<close>

datatype InterruptedKind = ABORT | TOKEN_LIMIT_EXCEEDED

record OCRTokensMetering =
  input_tokens :: int
  output_tokens :: int


section \<open>The exceptions of \<^verbatim>\<open>error.py\<close>\<close>

text \<open>
  The classes of the optional library \<^verbatim>\<open>doc_page_extractor\<close> that \<^verbatim>\<open>to_interrupted_error\<close>
  imports. The library is not part of the repository, so nothing is assumed about how
  the three classes inherit from each other: a library exception carries the list of those
  classes it is an instance of.
\<close>

datatype dpe_class = ExtractionAbortedError | DPEAbortError | DPETokenLimitError

text \<open>
  A value of \<open>exn\<close> is an instance of \<^verbatim>\<open>Exception\<close>, the type of the parameter of
  \<^verbatim>\<open>to_interrupted_error\<close> and of what \<^verbatim>\<open>except Exception\<close> catches.
  \<^item> \<open>PDFError message page_index\<close> and \<open>OCRError message page_index step_index cause\<close>;
    the last field is \<^verbatim>\<open>__cause__\<close>, set by \<^verbatim>\<open>raise ... from err\<close>.
  \<^item> \<open>TokenLimitError input_tokens output_tokens\<close>: its constructor stores both counts and
    passes no argument to \<^verbatim>\<open>Exception\<close>, so \<^verbatim>\<open>str\<close> of it is empty.
  \<^item> \<open>AbortError message input_tokens output_tokens\<close>: the class has no constructor of its
    own; a count is \<open>None\<close> when the instance has no such attribute, and then the class
    attribute (0) is what an attribute read finds.
  \<^item> \<open>LibraryError classes message input_tokens output_tokens\<close>: an exception of
    \<^verbatim>\<open>doc_page_extractor\<close>, with the counts the library stores on it.
  \<^item> \<open>OtherError class_name message\<close>: an instance of any other subclass of \<^verbatim>\<open>Exception\<close>.
\<close>

datatype exn =
    is_PDFError: PDFError pystr "int option"
  | is_OCRError: OCRError pystr (err_page_index: int) (err_step_index: int) (err_cause: "exn option")
  | is_TokenLimitError: TokenLimitError (tle_input_tokens: int) (tle_output_tokens: int)
  | is_AbortError: AbortError pystr (abort_input_tokens: "int option") (abort_output_tokens: "int option")
  | is_LibraryError: LibraryError (dpe_classes: "dpe_class list") pystr
      (dpe_input_tokens: int) (dpe_output_tokens: int)
  | is_OtherError: OtherError pystr pystr

text \<open>\<^verbatim>\<open>str(err)\<close>, which the f-string conversion \<^verbatim>\<open>{err!s}\<close> calls.\<close>

fun exn_str :: "exn \<Rightarrow> pystr" where
  "exn_str (PDFError m _) = m"
| "exn_str (OCRError m _ _ _) = m"
| "exn_str (TokenLimitError _ _) = []"
| "exn_str (AbortError m _ _) = m"
| "exn_str (LibraryError _ m _ _) = m"
| "exn_str (OtherError _ m) = m"

text \<open>\<^verbatim>\<open>isinstance(error, (PDFError, OCRError))\<close>.\<close>

definition is_inline_error :: "exn \<Rightarrow> bool" where
  "is_inline_error error \<longleftrightarrow> is_PDFError error \<or> is_OCRError error"

text \<open>\<^verbatim>\<open>isinstance\<close> against a class of the optional library.\<close>

definition dpe_isinstance :: "exn \<Rightarrow> dpe_class \<Rightarrow> bool" where
  "dpe_isinstance error c \<longleftrightarrow> is_LibraryError error \<and> c \<in> set (dpe_classes error)"

text \<open>
  \<^verbatim>\<open>getattr(error, name, 0)\<close> on an \<^verbatim>\<open>AbortError\<close>: the attribute attached to the instance,
  or else the class attribute, which is 0.
\<close>

definition getattr_tokens :: "int option \<Rightarrow> int" where
  "getattr_tokens a = (case a of Some n \<Rightarrow> n | None \<Rightarrow> 0)"

text \<open>
  \<^verbatim>\<open>InterruptedError\<close>, the outcome of the classifier: an exception object that holds a
  kind and a metering behind two read-only properties.
\<close>

record InterruptedError =
  kind :: InterruptedKind
  metering :: OCRTokensMetering

text \<open>
  \<^verbatim>\<open>to_interrupted_error\<close>. The first argument says whether
  \<^verbatim>\<open>from doc_page_extractor import ...\<close> succeeds (\<open>True\<close>) or raises
  \<^verbatim>\<open>ImportError\<close> (\<open>False\<close>). The result \<open>None\<close> is Python's \<^verbatim>\<open>None\<close>.
\<close>

definition to_interrupted_error :: "bool \<Rightarrow> exn \<Rightarrow> InterruptedError option" where
  "to_interrupted_error dpe_installed error =
     (if is_TokenLimitError error then
        Some \<lparr>kind = TOKEN_LIMIT_EXCEEDED,
              metering = \<lparr>input_tokens = tle_input_tokens error,
                          output_tokens = tle_output_tokens error\<rparr>\<rparr>
      else if is_AbortError error then
        Some \<lparr>kind = ABORT,
              metering = \<lparr>input_tokens = getattr_tokens (abort_input_tokens error),
                          output_tokens = getattr_tokens (abort_output_tokens error)\<rparr>\<rparr>
      else if \<not> dpe_installed then None
      else if dpe_isinstance error ExtractionAbortedError then
        (let kind_opt =
           (if dpe_isinstance error DPEAbortError then Some ABORT
            else if dpe_isinstance error DPETokenLimitError then Some TOKEN_LIMIT_EXCEEDED
            else None)
         in case kind_opt of
              Some k \<Rightarrow>
                Some \<lparr>kind = k,
                      metering = \<lparr>input_tokens = dpe_input_tokens error,
                                  output_tokens = dpe_output_tokens error\<rparr>\<rparr>
            | None \<Rightarrow> None)
      else None)"


section \<open>Images, requests and responses\<close>

text \<open>
  \<^verbatim>\<open>PIL.Image.Image\<close>, as far as \<^verbatim>\<open>api_extractor.py\<close> looks at it: \<^verbatim>\<open>image.size\<close> is
  \<open>(width, height)\<close>, and \<^verbatim>\<open>image.save(buf, format="PNG")\<close> either raises or writes the
  bytes of a PNG file (the encoder belongs to the imaging library).
\<close>

record Image =
  image_size :: "int \<times> int"
  image_png :: "exn + char list"

text \<open>\<^verbatim>\<open>base64.b64encode\<close>: three bytes become four letters, the tail is padded with \<^verbatim>\<open>=\<close>.\<close>

definition b64_alphabet :: string where
  "b64_alphabet = ''ABCDEFGHIJKLMNOPQRSTUVWXYZabcdefghijklmnopqrstuvwxyz0123456789+/''"

definition b64_char :: "nat \<Rightarrow> char" where
  "b64_char n = b64_alphabet ! (n mod 64)"

fun b64encode :: "char list \<Rightarrow> string" where
  "b64encode [] = []"
| "b64encode [a] =
     (let x = (of_char a :: nat)
      in [b64_char (x div 4), b64_char (x mod 4 * 16), CHR ''='', CHR ''=''])"
| "b64encode [a, b] =
     (let x = (of_char a :: nat); y = (of_char b :: nat)
      in [b64_char (x div 4), b64_char (x mod 4 * 16 + y div 16), b64_char (y mod 16 * 4),
          CHR ''=''])"
| "b64encode (a # b # c # bs) =
     (let x = (of_char a :: nat); y = (of_char b :: nat); z = (of_char c :: nat)
      in [b64_char (x div 4), b64_char (x mod 4 * 16 + y div 16),
          b64_char (y mod 16 * 4 + z div 64), b64_char (z mod 64)] @ b64encode bs)"

definition image_to_base64_data_url :: "Image \<Rightarrow> exn + pystr" where
  "image_to_base64_data_url img =
     (case image_png img of
        Inl e \<Rightarrow> Inl e
      | Inr buf \<Rightarrow> Inr (ustr ''data:image/png;base64,'' @ ustr (b64encode buf)))"

text \<open>
  The keyword arguments of \<^verbatim>\<open>client.chat.completions.create\<close>: the model name, the list
  of messages, and \<^verbatim>\<open>max_tokens\<close>, a key that is present only when the caller gave
  \<^verbatim>\<open>max_output_tokens\<close>.
\<close>

datatype content_part = ImageUrlPart pystr pystr | TextPart pystr

record message =
  msg_role :: pystr
  msg_content :: "content_part list"

record kwargs =
  kw_model :: pystr
  kw_messages :: "message list"
  kw_max_tokens :: "int option"

text \<open>
  An attribute read through \<^verbatim>\<open>getattr(obj, name, default)\<close> meets three cases: the object
  has no such attribute, the attribute is \<^verbatim>\<open>None\<close>, or it holds a value.
\<close>

datatype 'a attr = Missing | PyNone | Has 'a

text \<open>
  The response of the endpoint, as far as \<^verbatim>\<open>image2page\<close> reads it: \<^verbatim>\<open>response.choices\<close>
  (a list, or \<^verbatim>\<open>None\<close>), \<^verbatim>\<open>choices[0].message.content\<close> (a string, or \<^verbatim>\<open>None\<close>),
  \<^verbatim>\<open>response.usage\<close> and its two counts.
\<close>

record Usage =
  prompt_tokens :: "int attr"
  completion_tokens :: "int attr"

record Choice =
  message_content :: "pystr option"

record ChatCompletion =
  choices :: "Choice list option"
  usage :: "Usage attr"


section \<open>The world outside the backend\<close>

text \<open>
  What a call can change besides the backend object itself is kept in a record:
  \<^item> \<open>exchanges\<close>: every call of \<^verbatim>\<open>chat.completions.create\<close> made so far, oldest first, with
    the identity of the client it went through, its keyword arguments, and what the
    transport answered (an exception or a response);
  \<^item> \<open>clients_made\<close>: how many \<^verbatim>\<open>OpenAI\<close> clients have been constructed;
  \<^item> \<open>probes\<close>: what every invocation of the abort probe did so far, oldest first
    (the exception it raised, or a normal return).
\<close>

record world =
  exchanges :: "(nat \<times> kwargs \<times> (exn + ChatCompletion)) list"
  clients_made :: nat
  probes :: "(exn + unit) list"

text \<open>
  The transport library is a parameter: \<open>openai_raises\<close> says whether the constructor
  \<^verbatim>\<open>OpenAI(api_key=..., base_url=...)\<close> raises, and \<open>transport\<close> what
  \<^verbatim>\<open>chat.completions.create\<close> does with a request, each in the world at the time of the call.
\<close>

record env =
  openai_raises :: "world \<Rightarrow> pystr \<Rightarrow> pystr \<Rightarrow> exn option"
  transport :: "world \<Rightarrow> nat \<Rightarrow> kwargs \<Rightarrow> exn + ChatCompletion"

text \<open>
  \<^verbatim>\<open>check_aborted\<close> and \<^verbatim>\<open>AbortedCheck\<close> live in \<^verbatim>\<open>pdf_craft/metering.py\<close>, which is not among
  the sources, and \<^verbatim>\<open>image2page\<close> uses them only as \<^verbatim>\<open>check_aborted(aborted)\<close>. The probe
  is therefore a parameter: \<open>aborted w\<close> is what \<^verbatim>\<open>check_aborted(aborted)\<close> does when it
  runs in world \<open>w\<close>, either raising an exception or returning.
\<close>

type_synonym AbortedCheck = "world \<Rightarrow> exn + unit"

definition check_aborted :: "AbortedCheck \<Rightarrow> world \<Rightarrow> (exn + unit) \<times> world" where
  "check_aborted aborted w = (aborted w, w\<lparr>probes := probes w @ [aborted w]\<rparr>)"


section \<open>Pages\<close>

text \<open>
  \<^verbatim>\<open>Page\<close>, \<^verbatim>\<open>PageLayout\<close> and \<^verbatim>\<open>DeepSeekOCRSize\<close> come from \<^verbatim>\<open>pdf_craft/pdf/types.py\<close> and
  \<^verbatim>\<open>AssetHub\<close> from \<^verbatim>\<open>pdf_craft/common\<close>. The two records have the fields that
  \<^verbatim>\<open>image2page\<close> passes by keyword; the other two are handles that \<^verbatim>\<open>image2page\<close>
  never looks into.
\<close>

record PageLayout =
  ref :: pystr
  det :: "int \<times> int \<times> int \<times> int"
  layout_text :: pystr
  order :: int
  hash :: "pystr option"

record Page =
  index :: int
  raw_image :: "Image option"
  body_layouts :: "PageLayout list"
  footnotes_layouts :: "PageLayout list"
  page_input_tokens :: int
  page_output_tokens :: int

datatype AssetHub = AssetHub nat

datatype DeepSeekOCRSize = DeepSeekOCRSize pystr

text \<open>The surrogate code points are U+D800 to U+DFFF.\<close>

definition is_surrogate :: "nat \<Rightarrow> bool" where
  "is_surrogate c \<longleftrightarrow> 55296 \<le> c \<and> c \<le> 57343"

text \<open>
  Modelled from the spec: \<^verbatim>\<open>remove_surrogates\<close> of \<^verbatim>\<open>pdf_craft/common\<close>, which is not among
  the sources. The spec says that the text is normalised by stripping the literal
  surrogate code points: the function deletes them and keeps every other code point in
  place.
\<close>

definition remove_surrogates :: "pystr \<Rightarrow> pystr" where
  "remove_surrogates s = filter (\<lambda>c. \<not> is_surrogate c) s"

text \<open>\<^verbatim>\<open>_normalize_text\<close>; \<^verbatim>\<open>not text\<close> holds of \<^verbatim>\<open>None\<close> and of the empty string.\<close>

definition normalize_text :: "pystr option \<Rightarrow> pystr" where
  "normalize_text t =
     (case t of
        None \<Rightarrow> []
      | Some s \<Rightarrow> if s = [] then [] else py_strip (remove_surrogates s))"


section \<open>The remote API backend\<close>

definition DEFAULT_OCR_API_BASE_URL :: pystr where
  "DEFAULT_OCR_API_BASE_URL = ustr ''https://api.siliconflow.cn/v1''"

definition DEFAULT_OCR_API_MODEL :: pystr where
  "DEFAULT_OCR_API_MODEL = ustr ''DeepSeek/DeepSeek-OCR''"

text \<open>
  An \<^verbatim>\<open>OpenAI\<close> client object. \<open>client_id\<close> is its identity: the number of clients
  constructed before it, so that two constructed clients are never the same object.
\<close>

record OpenAI =
  client_id :: nat
  client_api_key :: pystr
  client_base_url :: pystr

record APIPageExtractor =
  api_key :: pystr
  base_url :: pystr
  model :: pystr
  client :: "OpenAI option"

text \<open>\<^verbatim>\<open>APIPageExtractor.__init__\<close>.\<close>

definition APIPageExtractor_init :: "pystr \<Rightarrow> pystr \<Rightarrow> pystr \<Rightarrow> APIPageExtractor" where
  "APIPageExtractor_init key url mdl =
     \<lparr>api_key = key, base_url = rstrip_slash url, model = mdl, client = None\<rparr>"

text \<open>The constructor call \<^verbatim>\<open>OpenAI(api_key=..., base_url=...)\<close>.\<close>

definition OpenAI_new :: "env \<Rightarrow> pystr \<Rightarrow> pystr \<Rightarrow> world \<Rightarrow> (exn + OpenAI) \<times> world" where
  "OpenAI_new env key url w =
     (case openai_raises env w key url of
        Some e \<Rightarrow> (Inl e, w)
      | None \<Rightarrow>
          (Inr \<lparr>client_id = clients_made w, client_api_key = key, client_base_url = url\<rparr>,
           w\<lparr>clients_made := Suc (clients_made w)\<rparr>))"

text \<open>\<^verbatim>\<open>APIPageExtractor._get_client\<close>.\<close>

definition get_client ::
  "env \<Rightarrow> APIPageExtractor \<Rightarrow> world \<Rightarrow> (exn + OpenAI) \<times> APIPageExtractor \<times> world" where
  "get_client env self w =
     (case client self of
        None \<Rightarrow>
          (case OpenAI_new env (api_key self) (base_url self) w of
             (Inl e, w') \<Rightarrow> (Inl e, self, w')
           | (Inr c, w') \<Rightarrow> (Inr c, self\<lparr>client := Some c\<rparr>, w'))
      | Some c \<Rightarrow> (Inr c, self, w))"

text \<open>\<^verbatim>\<open>download_models\<close> and \<^verbatim>\<open>load_models\<close>: the body of each is \<^verbatim>\<open>pass\<close>.\<close>

definition download_models ::
  "APIPageExtractor \<Rightarrow> pystr option \<Rightarrow> world \<Rightarrow> (exn + unit) \<times> APIPageExtractor \<times> world" where
  "download_models self revision w = (Inr (), self, w)"

definition load_models ::
  "APIPageExtractor \<Rightarrow> world \<Rightarrow> (exn + unit) \<times> APIPageExtractor \<times> world" where
  "load_models self w = (Inr (), self, w)"

text \<open>\<^verbatim>\<open>client.chat.completions.create(**kwargs)\<close>: the call is recorded with its answer.\<close>

definition chat_completions_create ::
  "env \<Rightarrow> OpenAI \<Rightarrow> kwargs \<Rightarrow> world \<Rightarrow> (exn + ChatCompletion) \<times> world" where
  "chat_completions_create env c kw w =
     (let r = transport env w (client_id c) kw
      in (r, w\<lparr>exchanges := exchanges w @ [(client_id c, kw, r)]\<rparr>))"

record image2page_args =
  image_arg :: Image
  page_index :: int
  asset_hub :: AssetHub
  ocr_size :: DeepSeekOCRSize
  includes_footnotes :: bool
  includes_raw_image :: bool
  plot_path :: "pystr option"
  max_tokens :: "int option"
  max_output_tokens :: "int option"
  device_number :: "int option"
  aborted :: AbortedCheck

text \<open>The body of the \<^verbatim>\<open>try\<close> statement of \<^verbatim>\<open>image2page\<close>.\<close>

definition try_request ::
  "env \<Rightarrow> APIPageExtractor \<Rightarrow> message list \<Rightarrow> int option \<Rightarrow> world \<Rightarrow>
   (exn + ChatCompletion) \<times> APIPageExtractor \<times> world" where
  "try_request env self messages max_out w =
     (case get_client env self w of
        (Inl e, self1, w1) \<Rightarrow> (Inl e, self1, w1)
      | (Inr c, self1, w1) \<Rightarrow>
          (let kw = \<lparr>kw_model = model self1, kw_messages = messages, kw_max_tokens = max_out\<rparr>
           in case chat_completions_create env c kw w1 of
                (r, w2) \<Rightarrow> (r, self1, w2)))"

text \<open>The message of the \<^verbatim>\<open>OCRError\<close> that the \<^verbatim>\<open>except\<close> clause raises.\<close>

definition request_failed_message :: "int \<Rightarrow> exn \<Rightarrow> pystr" where
  "request_failed_message i err =
     ustr ''OCR API request failed for page '' @ py_str_int i @ ustr '': '' @ exn_str err"

text \<open>
  The statements of \<^verbatim>\<open>image2page\<close> after the second probe: they read the response and
  build the page.
\<close>

definition page_of_response :: "image2page_args \<Rightarrow> Image option \<Rightarrow> ChatCompletion \<Rightarrow> Page" where
  "page_of_response a raw response =
     (let content =
            (case choices response of
               None \<Rightarrow> []
             | Some [] \<Rightarrow> []
             | Some (c # cs) \<Rightarrow>
                 py_strip (case message_content c of None \<Rightarrow> [] | Some s \<Rightarrow> s));
          tokens =
            (case usage response of
               Has u \<Rightarrow>
                 ((case prompt_tokens u of Has n \<Rightarrow> n | PyNone \<Rightarrow> 0 | Missing \<Rightarrow> 0),
                  (case completion_tokens u of Has n \<Rightarrow> n | PyNone \<Rightarrow> 0 | Missing \<Rightarrow> 0))
             | PyNone \<Rightarrow> (0, 0)
             | Missing \<Rightarrow> (0, 0));
          full_det = (0, 0, fst (image_size (image_arg a)), snd (image_size (image_arg a)));
          layout = \<lparr>ref = ustr ''text'', det = full_det,
                    layout_text = normalize_text (Some content), order = 0, hash = None\<rparr>
      in \<lparr>index = page_index a, raw_image = raw, body_layouts = [layout],
          footnotes_layouts = [], page_input_tokens = fst tokens,
          page_output_tokens = snd tokens\<rparr>)"

text \<open>\<^verbatim>\<open>APIPageExtractor.image2page\<close>.\<close>

definition image2page ::
  "env \<Rightarrow> APIPageExtractor \<Rightarrow> image2page_args \<Rightarrow> world \<Rightarrow>
   (exn + Page) \<times> APIPageExtractor \<times> world" where
  "image2page env self a w =
     (case check_aborted (aborted a) w of
        (Inl e, w1) \<Rightarrow> (Inl e, self, w1)
      | (Inr u1, w1) \<Rightarrow>
          (let raw = (if includes_raw_image a then Some (image_arg a) else None)
           in case image_to_base64_data_url (image_arg a) of
                Inl e \<Rightarrow> (Inl e, self, w1)
              | Inr url \<Rightarrow>
                  (let prompt = ustr ''<image>'' @ [10] @ ustr ''Convert the document to markdown.'';
                       messages =
                         [\<lparr>msg_role = ustr ''user'',
                           msg_content = [ImageUrlPart url (ustr ''high''), TextPart prompt]\<rparr>]
                   in case try_request env self messages (max_output_tokens a) w1 of
                        (Inl err, self2, w2) \<Rightarrow>
                          (Inl (OCRError (request_failed_message (page_index a) err)
                                  (page_index a) 1 (Some err)),
                           self2, w2)
                      | (Inr response, self2, w2) \<Rightarrow>
                          (case check_aborted (aborted a) w2 of
                             (Inl e, w3) \<Rightarrow> (Inl e, self2, w3)
                           | (Inr u2, w3) \<Rightarrow>
                               (Inr (page_of_response a raw response), self2, w3)))))"

text \<open>
  \<^verbatim>\<open>create_api_extractor_from_env\<close>; the argument is \<^verbatim>\<open>os.environ\<close>. An empty string counts
  as unset, as \<^verbatim>\<open>or\<close> and \<^verbatim>\<open>not\<close> treat it.
\<close>

definition create_api_extractor_from_env :: "(pystr \<rightharpoonup> pystr) \<Rightarrow> APIPageExtractor option" where
  "create_api_extractor_from_env environ =
     (let key =
            (case environ (ustr ''SILICONFLOW_API_KEY'') of
               Some k \<Rightarrow> if k \<noteq> [] then Some k else environ (ustr ''OCR_API_KEY'')
             | None \<Rightarrow> environ (ustr ''OCR_API_KEY''))
      in case key of
           None \<Rightarrow> None
         | Some k \<Rightarrow>
             if k = [] then None
             else Some (APIPageExtractor_init k
                    (case environ (ustr ''OCR_API_BASE_URL'') of
                       Some u \<Rightarrow> u | None \<Rightarrow> DEFAULT_OCR_API_BASE_URL)
                    (case environ (ustr ''OCR_API_MODEL'') of
                       Some m \<Rightarrow> m | None \<Rightarrow> DEFAULT_OCR_API_MODEL)))"


section \<open>The recognised text as the specification words it\<close>

text \<open>
  The specification takes the recognised text from the first returned choice and reads it
  as the empty string when there is no choice or no content. This is that reading, before
  any normalisation; \<open>page_of_response\<close> above is what the code does.
\<close>

definition first_choice_content :: "ChatCompletion \<Rightarrow> pystr" where
  "first_choice_content response =
     (case choices response of
        None \<Rightarrow> []
      | Some [] \<Rightarrow> []
      | Some (c # cs) \<Rightarrow> (case message_content c of None \<Rightarrow> [] | Some s \<Rightarrow> s))"


section \<open>Sequences of calls\<close>

text \<open>
  The two lifecycle hooks, called one after the other in any order. The run keeps the
  outcome of every call.
\<close>

datatype lifecycle_call = Download_models "pystr option" | Load_models

definition lifecycle_call ::
  "lifecycle_call \<Rightarrow> APIPageExtractor \<Rightarrow> world \<Rightarrow> (exn + unit) \<times> APIPageExtractor \<times> world" where
  "lifecycle_call c self w =
     (case c of
        Download_models revision \<Rightarrow> download_models self revision w
      | Load_models \<Rightarrow> load_models self w)"

fun lifecycle_calls ::
  "lifecycle_call list \<Rightarrow> APIPageExtractor \<Rightarrow> world \<Rightarrow>
   (exn + unit) list \<times> APIPageExtractor \<times> world" where
  "lifecycle_calls [] self w = ([], self, w)"
| "lifecycle_calls (c # cs) self w =
     (case lifecycle_call c self w of
        (r, self1, w1) \<Rightarrow>
          (case lifecycle_calls cs self1 w1 of
             (rs, self2, w2) \<Rightarrow> (r # rs, self2, w2)))"

text \<open>
  Any method of the backend, called on an instance that lives on whether the call returns
  or raises: the run keeps the instance and the world after each call.
\<close>

datatype backend_call =
    Call_download_models "pystr option"
  | Call_load_models
  | Call_get_client
  | Call_image2page image2page_args

definition backend_call ::
  "env \<Rightarrow> backend_call \<Rightarrow> APIPageExtractor \<times> world \<Rightarrow> APIPageExtractor \<times> world" where
  "backend_call env c sw =
     (case c of
        Call_download_models revision \<Rightarrow> snd (download_models (fst sw) revision (snd sw))
      | Call_load_models \<Rightarrow> snd (load_models (fst sw) (snd sw))
      | Call_get_client \<Rightarrow> snd (get_client env (fst sw) (snd sw))
      | Call_image2page a \<Rightarrow> snd (image2page env (fst sw) a (snd sw)))"

fun backend_calls ::
  "env \<Rightarrow> backend_call list \<Rightarrow> APIPageExtractor \<times> world \<Rightarrow> APIPageExtractor \<times> world" where
  "backend_calls env [] sw = sw"
| "backend_calls env (c # cs) sw = backend_calls env cs (backend_call env c sw)"


section \<open>Test doubles\<close>

text \<open>
  Concrete inputs on which the theorems below are run: a transport that always gives the
  same answer, three abort probes, an image of 640 by 480 pixels, and a fresh backend in a
  world where nothing has happened yet.
\<close>

definition stub_env :: "(exn + ChatCompletion) \<Rightarrow> env" where
  "stub_env r = \<lparr>openai_raises = (\<lambda>w key url. None), transport = (\<lambda>w cid kw. r)\<rparr>"

definition never_aborted :: AbortedCheck where
  "never_aborted w = Inr ()"

definition aborted_at_once :: AbortedCheck where
  "aborted_at_once w = Inl (AbortError [] None None)"

definition aborted_after_response :: AbortedCheck where
  "aborted_after_response w =
     (if exchanges w = [] then Inr () else Inl (AbortError [] None None))"

definition stub_image :: Image where
  "stub_image = \<lparr>image_size = (640, 480), image_png = Inr ''PNG''\<rparr>"

definition stub_args :: "AbortedCheck \<Rightarrow> image2page_args" where
  "stub_args probe =
     \<lparr>image_arg = stub_image, page_index = 3, asset_hub = AssetHub 0,
      ocr_size = DeepSeekOCRSize (ustr ''gundam''), includes_footnotes = False,
      includes_raw_image = False, plot_path = None, max_tokens = None,
      max_output_tokens = Some 256, device_number = None, aborted = probe\<rparr>"

definition stub_response :: "pystr option \<Rightarrow> Usage attr \<Rightarrow> ChatCompletion" where
  "stub_response c u = \<lparr>choices = Some [\<lparr>message_content = c\<rparr>], usage = u\<rparr>"

definition fresh_world :: world where
  "fresh_world = \<lparr>exchanges = [], clients_made = 0, probes = []\<rparr>"

definition fresh_backend :: APIPageExtractor where
  "fresh_backend =
     APIPageExtractor_init (ustr ''sk-test'') DEFAULT_OCR_API_BASE_URL DEFAULT_OCR_API_MODEL"

text \<open>The client that the fresh backend constructs in the fresh world.\<close>

definition stub_client :: OpenAI where
  "stub_client =
     \<lparr>client_id = 0, client_api_key = api_key fresh_backend,
      client_base_url = base_url fresh_backend\<rparr>"


section \<open>Stripping and surrogate removal\<close>

text \<open>
  \<^verbatim>\<open>image2page\<close> strips the content once and \<^verbatim>\<open>_normalize_text\<close> strips it again after
  the surrogates are gone. The first strip changes nothing in the end, because whitespace
  is never a surrogate.
\<close>

lemma dropWhile_filter_dropWhile:
  assumes "\<And>c. W c \<Longrightarrow> P c"
  shows "dropWhile W (filter P (dropWhile W s)) = dropWhile W (filter P s)"
  using assms by (induction s) auto

lemma dropWhile_both_ends_commute:
  "dropWhile W (rev (dropWhile W (rev s))) = rev (dropWhile W (rev (dropWhile W s)))"
proof (induction s)
  case Nil
  then show ?case by simp
next
  case (Cons x xs)
  show ?case
  proof (cases "W x")
    case True
    then show ?thesis using Cons by (auto simp: dropWhile_append dest: set_dropWhileD)
  next
    case False
    then show ?thesis by (auto simp: dropWhile_append)
  qed
qed

lemma py_isspace_not_surrogate: "py_isspace c \<Longrightarrow> \<not> is_surrogate c"
  by (auto simp: py_isspace_def is_surrogate_def)

lemma lstrip_remove_surrogates:
  "py_lstrip (remove_surrogates (py_lstrip s)) = py_lstrip (remove_surrogates s)"
  unfolding py_lstrip_def remove_surrogates_def
  by (rule dropWhile_filter_dropWhile) (rule py_isspace_not_surrogate)

lemma rstrip_remove_surrogates:
  "py_rstrip (remove_surrogates (py_rstrip s)) = py_rstrip (remove_surrogates s)"
proof -
  have "dropWhile py_isspace (filter (\<lambda>c. \<not> is_surrogate c) (dropWhile py_isspace (rev s))) =
        dropWhile py_isspace (filter (\<lambda>c. \<not> is_surrogate c) (rev s))"
    by (rule dropWhile_filter_dropWhile) (rule py_isspace_not_surrogate)
  then show ?thesis
    by (simp add: py_rstrip_def remove_surrogates_def rev_filter)
qed

lemma lstrip_rstrip: "py_lstrip (py_rstrip s) = py_rstrip (py_lstrip s)"
  unfolding py_lstrip_def py_rstrip_def by (rule dropWhile_both_ends_commute)

lemma strip_remove_surrogates_strip:
  "py_strip (remove_surrogates (py_strip s)) = py_strip (remove_surrogates s)"
proof -
  have "py_strip (remove_surrogates (py_strip s)) =
        py_lstrip (py_rstrip (remove_surrogates (py_rstrip (py_lstrip s))))"
    by (simp add: py_strip_def lstrip_rstrip)
  also have "\<dots> = py_lstrip (py_rstrip (remove_surrogates (py_lstrip s)))"
    by (simp add: rstrip_remove_surrogates)
  also have "\<dots> = py_rstrip (py_lstrip (remove_surrogates (py_lstrip s)))"
    by (simp add: lstrip_rstrip)
  also have "\<dots> = py_strip (remove_surrogates s)"
    by (simp add: lstrip_remove_surrogates py_strip_def)
  finally show ?thesis .
qed

lemma strip_all_space: "list_all py_isspace s \<Longrightarrow> py_strip (remove_surrogates s) = []"
proof -
  assume "list_all py_isspace s"
  then have "\<forall>c\<in>set (remove_surrogates s). py_isspace c"
    by (simp add: remove_surrogates_def list_all_iff)
  then have "py_lstrip (remove_surrogates s) = []"
    by (simp add: py_lstrip_def)
  then show ?thesis
    by (simp add: py_strip_def py_rstrip_def)
qed

lemma normalize_text_strip:
  "normalize_text (Some (py_strip s)) = py_strip (remove_surrogates s)"
proof (cases "py_strip s = []")
  case True
  have "py_strip (remove_surrogates s) = py_strip (remove_surrogates (py_strip s))"
    by (simp add: strip_remove_surrogates_strip)
  also have "\<dots> = py_strip []"
    by (simp add: True remove_surrogates_def)
  also have "\<dots> = []"
    by (simp add: py_strip_def py_lstrip_def py_rstrip_def)
  finally show ?thesis
    by (simp add: normalize_text_def True)
next
  case False
  then show ?thesis
    by (simp add: normalize_text_def strip_remove_surrogates_strip)
qed

lemma page_of_response_text:
  "map layout_text (body_layouts (page_of_response a raw resp)) =
     [py_strip (remove_surrogates (first_choice_content resp))]"
proof (cases "choices resp")
  case None
  then show ?thesis
    by (simp add: page_of_response_def first_choice_content_def normalize_text_def
        remove_surrogates_def py_strip_def py_lstrip_def py_rstrip_def Let_def)
next
  case (Some cs)
  show ?thesis
  proof (cases cs)
    case Nil
    with Some show ?thesis
      by (simp add: page_of_response_def first_choice_content_def normalize_text_def
          remove_surrogates_def py_strip_def py_lstrip_def py_rstrip_def Let_def)
  next
    case (Cons c rest)
    with Some show ?thesis
      by (simp add: page_of_response_def first_choice_content_def normalize_text_strip Let_def)
  qed
qed


section \<open>What a call leaves in the world\<close>

lemma get_client_exchanges:
  "get_client env self w = (r, self', w') \<Longrightarrow> exchanges w' = exchanges w \<and> probes w' = probes w"
  by (auto simp: get_client_def OpenAI_new_def split: option.splits prod.splits sum.splits)

lemma try_request_Inr:
  assumes "try_request env self msgs mo w = (Inr resp, self', w')"
  shows "\<exists>cid kw. exchanges w' = exchanges w @ [(cid, kw, Inr resp)]"
  using assms
  by (auto simp: try_request_def chat_completions_create_def Let_def
           dest!: get_client_exchanges split: prod.splits sum.splits)

lemma try_request_probes:
  assumes "try_request env self msgs mo w = (r, self', w')"
  shows "probes w' = probes w"
  using assms
  by (auto simp: try_request_def chat_completions_create_def Let_def
           dest!: get_client_exchanges split: prod.splits sum.splits)

lemma try_request_Inl:
  assumes "try_request env self msgs mo w = (Inl err, self', w')"
  shows "exchanges w' = exchanges w \<or> (\<exists>cid kw. exchanges w' = exchanges w @ [(cid, kw, Inl err)])"
  using assms
  by (auto simp: try_request_def chat_completions_create_def Let_def
           dest!: get_client_exchanges split: prod.splits sum.splits)

text \<open>
  A call that returns a page has made exactly one request, the transport has answered it
  with a response, and the page is built from that response.
\<close>

lemma image2page_Inr:
  assumes "image2page env self a w = (Inr page, self', w')"
  shows "\<exists>cid kw resp. exchanges w' = exchanges w @ [(cid, kw, Inr resp)] \<and>
           page = page_of_response a
                    (if includes_raw_image a then Some (image_arg a) else None) resp"
  using assms
  by (auto simp: image2page_def check_aborted_def Let_def
           dest!: try_request_Inr split: prod.splits sum.splits)

lemma image2page_Inr_page:
  assumes "image2page env self a w = (Inr page, self', w')"
      and "exchanges w' = exchanges w @ [(cid, kw, Inr resp)]"
  shows "page = page_of_response a
                  (if includes_raw_image a then Some (image_arg a) else None) resp"
proof -
  from image2page_Inr [OF assms(1)] obtain cid' kw' resp'
    where "exchanges w' = exchanges w @ [(cid', kw', Inr resp')]"
      and page: "page = page_of_response a
                  (if includes_raw_image a then Some (image_arg a) else None) resp'"
    by blast
  with assms(2) have "resp' = resp" by simp
  with page show ?thesis by simp
qed

text \<open>
  A call whose request was answered with a response and whose two probes returned gives
  back the page of that response, whatever the response holds.
\<close>

lemma image2page_answered:
  assumes "image2page env self a w = (r, self', w')"
      and "exchanges w' = exchanges w @ [(cid, kw, Inr resp)]"
      and "probes w' = probes w @ [Inr (), Inr ()]"
  shows "r = Inr (page_of_response a
                    (if includes_raw_image a then Some (image_arg a) else None) resp)"
proof -
  have "\<exists>page. r = Inr page"
    using assms(1,3)
    by (auto simp: image2page_def check_aborted_def Let_def
             dest!: try_request_probes split: prod.splits sum.splits)
  then obtain page where r: "r = Inr page" by blast
  with assms(1) have "image2page env self a w = (Inr page, self', w')" by simp
  from image2page_Inr_page [OF this assms(2)] r show ?thesis by simp
qed


section \<open>The test doubles, run\<close>

lemmas run_defs =
  image2page_def check_aborted_def image_to_base64_data_url_def try_request_def
  get_client_def OpenAI_new_def chat_completions_create_def Let_def

lemmas stub_defs =
  stub_env_def never_aborted_def aborted_at_once_def aborted_after_response_def
  stub_image_def stub_args_def stub_response_def fresh_world_def fresh_backend_def
  APIPageExtractor_init_def

text \<open>
  With a probe that never aborts and a transport that answers \<open>resp\<close>, the fresh backend
  builds its client, sends one request and returns the page of \<open>resp\<close>.
\<close>

lemma stub_run:
  "image2page (stub_env (Inr resp)) fresh_backend (stub_args never_aborted) fresh_world =
     (Inr (page_of_response (stub_args never_aborted) None resp),
      fresh_backend\<lparr>client := Some \<lparr>client_id = 0, client_api_key = api_key fresh_backend,
                                    client_base_url = base_url fresh_backend\<rparr>\<rparr>,
      \<lparr>exchanges =
         [(0, \<lparr>kw_model = DEFAULT_OCR_API_MODEL,
               kw_messages =
                 [\<lparr>msg_role = ustr ''user'',
                   msg_content =
                     [ImageUrlPart (ustr ''data:image/png;base64,UE5H'') (ustr ''high''),
                      TextPart (ustr ''<image>'' @ [10] @
                                ustr ''Convert the document to markdown.'')]\<rparr>],
               kw_max_tokens = Some 256\<rparr>,
           Inr resp)],
       clients_made = 1, probes = [Inr (), Inr ()]\<rparr>)"
  by (simp add: run_defs stub_defs ustr_def b64_char_def b64_alphabet_def)

text \<open>The same run with a probe that aborts once the response is there.\<close>

lemma stub_run_abort_after:
  "image2page (stub_env (Inr resp)) fresh_backend (stub_args aborted_after_response) fresh_world =
     (Inl (AbortError [] None None),
      fresh_backend\<lparr>client := Some \<lparr>client_id = 0, client_api_key = api_key fresh_backend,
                                    client_base_url = base_url fresh_backend\<rparr>\<rparr>,
      \<lparr>exchanges =
         [(0, \<lparr>kw_model = DEFAULT_OCR_API_MODEL,
               kw_messages =
                 [\<lparr>msg_role = ustr ''user'',
                   msg_content =
                     [ImageUrlPart (ustr ''data:image/png;base64,UE5H'') (ustr ''high''),
                      TextPart (ustr ''<image>'' @ [10] @
                                ustr ''Convert the document to markdown.'')]\<rparr>],
               kw_max_tokens = Some 256\<rparr>,
           Inr resp)],
       clients_made = 1, probes = [Inr (), Inl (AbortError [] None None)]\<rparr>)"
  by (simp add: run_defs stub_defs ustr_def b64_char_def b64_alphabet_def)

lemma stub_run_log:
  "exchanges \<lparr>exchanges = [x], clients_made = n, probes = ps\<rparr> = exchanges fresh_world @ [x]"
  by (simp add: fresh_world_def)

lemma stub_run_probes:
  "probes \<lparr>exchanges = xs, clients_made = n, probes = ps\<rparr> = probes fresh_world @ ps"
  by (simp add: fresh_world_def)


section \<open>The page of a successful call\<close>

text \<open>
  Claim C1. Whenever \<^verbatim>\<open>image2page\<close> of the remote API backend returns a page, the body
  layouts of the page are exactly one layout, with bounding rectangle
  \<open>(0, 0, width, height)\<close> of the input image, role tag \<^verbatim>\<open>"text"\<close>, reading-order index 0
  and no content hash, and the footnote layouts are the empty list.
\<close>

theorem degraded_single_layout:
  assumes "image2page env self a w = (Inr page, self', w')"
  shows "\<exists>t. body_layouts page =
               [\<lparr>ref = ustr ''text'',
                 det = (0, 0, fst (image_size (image_arg a)), snd (image_size (image_arg a))),
                 layout_text = t, order = 0, hash = None\<rparr>] \<and>
             footnotes_layouts page = []"
proof -
  from image2page_Inr [OF assms] obtain raw resp
    where "page = page_of_response a raw resp" by blast
  then show ?thesis
    by (simp add: page_of_response_def Let_def)
qed

theorem degraded_single_layout_witness:
  "fst (image2page (stub_env (Inr (stub_response (Some (ustr ''Hello'')) Missing)))
         fresh_backend (stub_args never_aborted) fresh_world) =
     Inr (page_of_response (stub_args never_aborted) None
            (stub_response (Some (ustr ''Hello'')) Missing)) \<and>
   (\<exists>t. body_layouts (page_of_response (stub_args never_aborted) None
            (stub_response (Some (ustr ''Hello'')) Missing)) =
          [\<lparr>ref = ustr ''text'', det = (0, 0, 640, 480), layout_text = t, order = 0,
            hash = None\<rparr>] \<and>
        footnotes_layouts (page_of_response (stub_args never_aborted) None
            (stub_response (Some (ustr ''Hello'')) Missing)) = [])"
proof -
  have "image_size (image_arg (stub_args never_aborted)) = (640, 480)"
    by (simp add: stub_args_def stub_image_def)
  with degraded_single_layout [OF stub_run, of "stub_response (Some (ustr ''Hello'')) Missing"]
  show ?thesis
    by (simp add: stub_run)
qed


text \<open>
  Claim C5. When the request of a call is answered with a response \<open>resp\<close> and both
  probes return, \<^verbatim>\<open>image2page\<close> returns a page, and the text of its body layout is the
  first-choice content of \<open>resp\<close> with the surrogates removed and the whitespace at both
  ends trimmed. A content that is all whitespace gives the empty text; so do an absent
  content and a response without choices, whose first-choice content is empty. None of them
  is an error. The witness runs the content \<^verbatim>\<open>"  Hello\n"\<close>, which gives \<^verbatim>\<open>"Hello"\<close>, and
  the content \<^verbatim>\<open>None\<close>.
\<close>

theorem layout_text_is_normalised_content:
  assumes "image2page env self a w = (r, self', w')"
      and "exchanges w' = exchanges w @ [(cid, kw, Inr resp)]"
      and "probes w' = probes w @ [Inr (), Inr ()]"
  shows "\<exists>page. r = Inr page \<and>
           map layout_text (body_layouts page) =
             [py_strip (remove_surrogates (first_choice_content resp))] \<and>
           (list_all py_isspace (first_choice_content resp) \<longrightarrow>
              map layout_text (body_layouts page) = [[]])"
  using image2page_answered [OF assms]
  by (simp add: page_of_response_text strip_all_space)

theorem layout_text_is_normalised_content_witness:
  "fst (image2page (stub_env (Inr (stub_response (Some (ustr ''  Hello'' @ [10])) Missing)))
         fresh_backend (stub_args never_aborted) fresh_world) =
     Inr (page_of_response (stub_args never_aborted) None
            (stub_response (Some (ustr ''  Hello'' @ [10])) Missing)) \<and>
   map layout_text (body_layouts (page_of_response (stub_args never_aborted) None
       (stub_response (Some (ustr ''  Hello'' @ [10])) Missing))) = [ustr ''Hello''] \<and>
   fst (image2page (stub_env (Inr (stub_response None Missing)))
         fresh_backend (stub_args never_aborted) fresh_world) =
     Inr (page_of_response (stub_args never_aborted) None (stub_response None Missing)) \<and>
   list_all py_isspace (first_choice_content (stub_response None Missing)) \<and>
   map layout_text (body_layouts (page_of_response (stub_args never_aborted) None
       (stub_response None Missing))) = [[]]"
proof -
  let ?hello = "stub_response (Some (ustr ''  Hello'' @ [10])) Missing"
  let ?none = "stub_response None Missing"
  have a: "py_strip (remove_surrogates (first_choice_content ?hello)) = ustr ''Hello''"
    by (simp add: first_choice_content_def stub_response_def py_strip_def py_lstrip_def
        py_rstrip_def remove_surrogates_def is_surrogate_def py_isspace_def ustr_def)
  have c: "list_all py_isspace (first_choice_content ?none)"
    by (simp add: first_choice_content_def stub_response_def)
  note t1 = layout_text_is_normalised_content
    [OF stub_run stub_run_log stub_run_probes, of ?hello]
  note t2 = layout_text_is_normalised_content
    [OF stub_run stub_run_log stub_run_probes, of ?none]
  from t1 a have h: "map layout_text (body_layouts (page_of_response
      (stub_args never_aborted) None ?hello)) = [ustr ''Hello'']"
    by auto
  from t2 c have n: "map layout_text (body_layouts (page_of_response
      (stub_args never_aborted) None ?none)) = [[]]"
    by auto
  from h n c show ?thesis
    by (simp add: stub_run)
qed

text \<open>
  Claim C6. When the request of a call is answered with a response \<open>resp\<close> and both
  probes return, \<^verbatim>\<open>image2page\<close> returns a page that carries as input tokens the
  \<^verbatim>\<open>prompt_tokens\<close> of the usage object of \<open>resp\<close> and as output tokens its
  \<^verbatim>\<open>completion_tokens\<close>; a count is 0 where the usage object or that field is missing or
  \<^verbatim>\<open>None\<close>, and no error is raised. The witness runs a usage of 12 and 5, and a response
  without usage.
\<close>

theorem page_tokens_from_usage:
  assumes "image2page env self a w = (r, self', w')"
      and "exchanges w' = exchanges w @ [(cid, kw, Inr resp)]"
      and "probes w' = probes w @ [Inr (), Inr ()]"
  shows "\<exists>page. r = Inr page \<and>
           page_input_tokens page =
             (case usage resp of
                Has u \<Rightarrow> (case prompt_tokens u of Has n \<Rightarrow> n | PyNone \<Rightarrow> 0 | Missing \<Rightarrow> 0)
              | PyNone \<Rightarrow> 0 | Missing \<Rightarrow> 0) \<and>
           page_output_tokens page =
             (case usage resp of
                Has u \<Rightarrow> (case completion_tokens u of Has n \<Rightarrow> n | PyNone \<Rightarrow> 0 | Missing \<Rightarrow> 0)
              | PyNone \<Rightarrow> 0 | Missing \<Rightarrow> 0)"
  using image2page_answered [OF assms]
  by (simp add: page_of_response_def Let_def split: attr.splits)

theorem page_tokens_from_usage_witness:
  "fst (image2page
         (stub_env (Inr (stub_response (Some (ustr ''Hello''))
                          (Has \<lparr>prompt_tokens = Has 12, completion_tokens = Has 5\<rparr>))))
         fresh_backend (stub_args never_aborted) fresh_world) =
     Inr (page_of_response (stub_args never_aborted) None
            (stub_response (Some (ustr ''Hello''))
               (Has \<lparr>prompt_tokens = Has 12, completion_tokens = Has 5\<rparr>))) \<and>
   page_input_tokens (page_of_response (stub_args never_aborted) None
       (stub_response (Some (ustr ''Hello''))
          (Has \<lparr>prompt_tokens = Has 12, completion_tokens = Has 5\<rparr>))) = 12 \<and>
   page_output_tokens (page_of_response (stub_args never_aborted) None
       (stub_response (Some (ustr ''Hello''))
          (Has \<lparr>prompt_tokens = Has 12, completion_tokens = Has 5\<rparr>))) = 5 \<and>
   page_input_tokens (page_of_response (stub_args never_aborted) None
       (stub_response (Some (ustr ''Hello'')) Missing)) = 0 \<and>
   page_output_tokens (page_of_response (stub_args never_aborted) None
       (stub_response (Some (ustr ''Hello'')) Missing)) = 0"
proof -
  let ?counted = "stub_response (Some (ustr ''Hello''))
                    (Has \<lparr>prompt_tokens = Has 12, completion_tokens = Has 5\<rparr>)"
  let ?bare = "stub_response (Some (ustr ''Hello'')) Missing"
  note t1 = page_tokens_from_usage [OF stub_run stub_run_log stub_run_probes, of ?counted]
  note t2 = page_tokens_from_usage [OF stub_run stub_run_log stub_run_probes, of ?bare]
  from t1 t2 show ?thesis
    by (auto simp: stub_run stub_response_def)
qed


section \<open>Failures of the request\<close>

text \<open>
  Claim C3. Whenever the transport raised \<open>err\<close> on the request of a call, that is, the
  call added to the record of exchanges one request answered by the exception \<open>err\<close>,
  \<^verbatim>\<open>image2page\<close> fails with an \<^verbatim>\<open>OCRError\<close> whose page index is the page index given,
  whose step index is 1 and whose cause is \<open>err\<close>.
\<close>

theorem request_failure_is_wrapped:
  assumes "image2page env self a w = (r, self', w')"
      and "exchanges w' = exchanges w @ [(cid, kw, Inl err)]"
  shows "r = Inl (OCRError (request_failed_message (page_index a) err) (page_index a) 1 (Some err))"
  using assms
  by (auto simp: image2page_def check_aborted_def Let_def
           dest!: try_request_Inr try_request_Inl split: prod.splits sum.splits)

theorem request_failure_is_wrapped_witness:
  "exchanges (snd (snd (image2page
       (stub_env (Inl (OtherError (ustr ''ConnectionError'') (ustr ''timed out''))))
       fresh_backend (stub_args never_aborted) fresh_world))) =
     exchanges fresh_world @
       [(0, \<lparr>kw_model = DEFAULT_OCR_API_MODEL,
             kw_messages =
               [\<lparr>msg_role = ustr ''user'',
                 msg_content =
                   [ImageUrlPart (ustr ''data:image/png;base64,UE5H'') (ustr ''high''),
                    TextPart (ustr ''<image>'' @ [10] @
                              ustr ''Convert the document to markdown.'')]\<rparr>],
             kw_max_tokens = Some 256\<rparr>,
         Inl (OtherError (ustr ''ConnectionError'') (ustr ''timed out'')))] \<and>
   fst (image2page
       (stub_env (Inl (OtherError (ustr ''ConnectionError'') (ustr ''timed out''))))
       fresh_backend (stub_args never_aborted) fresh_world) =
     Inl (OCRError (ustr ''OCR API request failed for page 3: timed out'') 3 1
            (Some (OtherError (ustr ''ConnectionError'') (ustr ''timed out''))))"
proof -
  let ?err = "OtherError (ustr ''ConnectionError'') (ustr ''timed out'')"
  let ?run = "image2page (stub_env (Inl ?err)) fresh_backend (stub_args never_aborted) fresh_world"
  let ?kw = "\<lparr>kw_model = DEFAULT_OCR_API_MODEL,
             kw_messages =
               [\<lparr>msg_role = ustr ''user'',
                 msg_content =
                   [ImageUrlPart (ustr ''data:image/png;base64,UE5H'') (ustr ''high''),
                    TextPart (ustr ''<image>'' @ [10] @
                              ustr ''Convert the document to markdown.'')]\<rparr>],
             kw_max_tokens = Some 256\<rparr>"
  have log: "exchanges (snd (snd ?run)) = exchanges fresh_world @ [(0, ?kw, Inl ?err)]"
    by (simp add: run_defs stub_defs ustr_def b64_char_def b64_alphabet_def)
  have "?run = (fst ?run, fst (snd ?run), snd (snd ?run))"
    by simp
  from request_failure_is_wrapped [OF this log]
  have "fst ?run = Inl (OCRError (request_failed_message (page_index (stub_args never_aborted)) ?err)
                          (page_index (stub_args never_aborted)) 1 (Some ?err))" .
  then have "fst ?run = Inl (OCRError (ustr ''OCR API request failed for page 3: timed out'') 3 1
            (Some ?err))"
    by (simp add: stub_args_def request_failed_message_def py_str_int_def py_digits.simps ustr_def)
  with log show ?thesis by simp
qed


section \<open>Aborts\<close>

text \<open>
  Claim C4. If the abort probe raises \<open>e\<close> at the checkpoint before the network call,
  \<^verbatim>\<open>image2page\<close> raises \<open>e\<close>, no request is added to the record of exchanges, no client is
  constructed and the backend object is unchanged. If \<open>e\<close> is an \<^verbatim>\<open>AbortError\<close>, the
  classifier gives it the kind \<^verbatim>\<open>ABORT\<close>, with the token counts attached to \<open>e\<close> and 0
  for a count that is not attached.
\<close>

theorem abort_before_request:
  assumes "aborted a w = Inl e"
  shows "(\<exists>w'. image2page env self a w = (Inl e, self, w') \<and>
               exchanges w' = exchanges w \<and> clients_made w' = clients_made w) \<and>
         (is_AbortError e \<longrightarrow>
            to_interrupted_error d e =
              Some \<lparr>kind = ABORT,
                    metering =
                      \<lparr>input_tokens = (case abort_input_tokens e of Some n \<Rightarrow> n | None \<Rightarrow> 0),
                       output_tokens = (case abort_output_tokens e of Some n \<Rightarrow> n | None \<Rightarrow> 0)\<rparr>\<rparr>)"
  using assms
  by (auto simp: image2page_def check_aborted_def to_interrupted_error_def getattr_tokens_def
      is_AbortError_def)

theorem abort_before_request_witness:
  "aborted (stub_args aborted_at_once) fresh_world = Inl (AbortError [] None None) \<and>
   image2page (stub_env (Inr (stub_response (Some (ustr ''Hello'')) Missing)))
       fresh_backend (stub_args aborted_at_once) fresh_world =
     (Inl (AbortError [] None None), fresh_backend,
      \<lparr>exchanges = [], clients_made = 0, probes = [Inl (AbortError [] None None)]\<rparr>) \<and>
   to_interrupted_error False (AbortError [] None None) =
     Some \<lparr>kind = ABORT, metering = \<lparr>input_tokens = 0, output_tokens = 0\<rparr>\<rparr>"
proof -
  have h: "aborted (stub_args aborted_at_once) fresh_world = Inl (AbortError [] None None)"
    by (simp add: stub_args_def aborted_at_once_def)
  from abort_before_request [OF h,
      of "stub_env (Inr (stub_response (Some (ustr ''Hello'')) Missing))" fresh_backend False]
  show ?thesis
    using h by (auto simp: image2page_def check_aborted_def fresh_world_def)
qed

text \<open>
  Claim C10. If the request of a call was answered with a response and the probe then raised
  \<open>e\<close> at the second checkpoint (the call added to the record of probes a normal return
  followed by \<open>e\<close>), \<^verbatim>\<open>image2page\<close> raises \<open>e\<close> itself, not an \<^verbatim>\<open>OCRError\<close> around it, and
  returns no page. If \<open>e\<close> is an \<^verbatim>\<open>AbortError\<close>, the classifier gives it the kind \<^verbatim>\<open>ABORT\<close>.
\<close>

theorem abort_after_response:
  assumes "image2page env self a w = (r, self', w')"
      and "exchanges w' = exchanges w @ [(cid, kw, Inr resp)]"
      and "probes w' = probes w @ [Inr (), Inl e]"
  shows "r = Inl e \<and>
         (is_AbortError e \<longrightarrow>
            to_interrupted_error d e =
              Some \<lparr>kind = ABORT,
                    metering =
                      \<lparr>input_tokens = (case abort_input_tokens e of Some n \<Rightarrow> n | None \<Rightarrow> 0),
                       output_tokens = (case abort_output_tokens e of Some n \<Rightarrow> n | None \<Rightarrow> 0)\<rparr>\<rparr>)"
proof
  show "r = Inl e"
    using assms
    by (auto simp: image2page_def check_aborted_def Let_def
             dest!: try_request_probes split: prod.splits sum.splits)
  show "is_AbortError e \<longrightarrow>
            to_interrupted_error d e =
              Some \<lparr>kind = ABORT,
                    metering =
                      \<lparr>input_tokens = (case abort_input_tokens e of Some n \<Rightarrow> n | None \<Rightarrow> 0),
                       output_tokens = (case abort_output_tokens e of Some n \<Rightarrow> n | None \<Rightarrow> 0)\<rparr>\<rparr>"
    by (auto simp: to_interrupted_error_def getattr_tokens_def is_AbortError_def)
qed

theorem abort_after_response_witness:
  "fst (image2page (stub_env (Inr (stub_response (Some (ustr ''Hello'')) Missing)))
         fresh_backend (stub_args aborted_after_response) fresh_world) =
     Inl (AbortError [] None None) \<and>
   probes (snd (snd (image2page (stub_env (Inr (stub_response (Some (ustr ''Hello'')) Missing)))
         fresh_backend (stub_args aborted_after_response) fresh_world))) =
     probes fresh_world @ [Inr (), Inl (AbortError [] None None)] \<and>
   to_interrupted_error False (AbortError [] None None) =
     Some \<lparr>kind = ABORT, metering = \<lparr>input_tokens = 0, output_tokens = 0\<rparr>\<rparr>"
proof -
  note t = abort_after_response
      [where d = False and resp = "stub_response (Some (ustr ''Hello'')) Missing",
       OF stub_run_abort_after stub_run_log stub_run_probes]
  have "probes fresh_world = []"
    by (simp add: fresh_world_def)
  with t show ?thesis
    by (simp add: stub_run_abort_after)
qed


section \<open>The classifier\<close>

text \<open>
  Claim C2. An exception that is neither a \<^verbatim>\<open>TokenLimitError\<close> nor an \<^verbatim>\<open>AbortError\<close> nor,
  when the optional library is installed, an instance of its \<^verbatim>\<open>ExtractionAbortedError\<close>,
  is classified as \<^verbatim>\<open>None\<close>; a \<^verbatim>\<open>TokenLimitError\<close> with counts \<open>n_in\<close> and \<open>n_out\<close> is
  classified as \<^verbatim>\<open>TOKEN_LIMIT_EXCEEDED\<close> with exactly these counts in its metering. The
  witness takes a \<^verbatim>\<open>ValueError\<close> and the counts 100 and 0.
\<close>

theorem classifier_generic_and_quota:
  "(\<not> is_TokenLimitError e \<and> \<not> is_AbortError e \<and>
      (dpe_installed \<longrightarrow> \<not> dpe_isinstance e ExtractionAbortedError)
      \<longrightarrow> to_interrupted_error dpe_installed e = None) \<and>
   to_interrupted_error dpe_installed (TokenLimitError n_in n_out) =
     Some \<lparr>kind = TOKEN_LIMIT_EXCEEDED,
           metering = \<lparr>input_tokens = n_in, output_tokens = n_out\<rparr>\<rparr>"
  by (simp add: to_interrupted_error_def)

theorem classifier_generic_and_quota_witness:
  "to_interrupted_error True (OtherError (ustr ''ValueError'') (ustr ''boom'')) = None \<and>
   to_interrupted_error True (TokenLimitError 100 0) =
     Some \<lparr>kind = TOKEN_LIMIT_EXCEEDED, metering = \<lparr>input_tokens = 100, output_tokens = 0\<rparr>\<rparr>"
  using classifier_generic_and_quota
    [of "OtherError (ustr ''ValueError'') (ustr ''boom'')" True 100 0]
  by (simp add: dpe_isinstance_def)

text \<open>
  Claim C9. For an exception that is neither a \<^verbatim>\<open>TokenLimitError\<close> nor an \<^verbatim>\<open>AbortError\<close>:
  when the optional library is not installed the classifier returns \<^verbatim>\<open>None\<close>; when it is
  installed and the exception is an instance of the library's \<^verbatim>\<open>ExtractionAbortedError\<close>
  but of neither its \<^verbatim>\<open>AbortError\<close> nor its \<^verbatim>\<open>TokenLimitError\<close>, the classifier returns
  \<^verbatim>\<open>None\<close> as well.
\<close>

theorem classifier_unmatched_is_none:
  "(\<not> is_TokenLimitError e \<and> \<not> is_AbortError e \<longrightarrow> to_interrupted_error False e = None) \<and>
   (\<not> is_TokenLimitError e' \<and> \<not> is_AbortError e' \<and>
      dpe_isinstance e' ExtractionAbortedError \<and>
      \<not> dpe_isinstance e' DPEAbortError \<and> \<not> dpe_isinstance e' DPETokenLimitError
      \<longrightarrow> to_interrupted_error True e' = None)"
  by (simp add: to_interrupted_error_def)

theorem classifier_unmatched_is_none_witness:
  "to_interrupted_error False (LibraryError [ExtractionAbortedError, DPEAbortError] [] 7 2) = None \<and>
   to_interrupted_error True (LibraryError [ExtractionAbortedError] [] 7 2) = None"
  using classifier_unmatched_is_none
    [of "LibraryError [ExtractionAbortedError, DPEAbortError] [] 7 2"
        "LibraryError [ExtractionAbortedError] [] 7 2"]
  by (simp add: dpe_isinstance_def)


section \<open>The lifecycle hooks\<close>

text \<open>
  Claim C7. Any sequence of calls of \<^verbatim>\<open>download_models\<close> and \<^verbatim>\<open>load_models\<close>, in any
  order and of any length, returns normally at every call and leaves the backend object
  and the world as they were: no request is sent, no client is constructed.
\<close>

theorem lifecycle_hooks_are_noops:
  "lifecycle_calls cs self w = (replicate (length cs) (Inr ()), self, w)"
  by (induction cs)
     (simp_all add: lifecycle_call_def download_models_def load_models_def
        split: lifecycle_call.splits)


section \<open>The transport client\<close>

text \<open>
  What one call does to the client field: either the field and the number of constructed
  clients stay as they are, or the field was \<^verbatim>\<open>None\<close>, now holds a client, and one more
  client has been constructed. Every request of the call goes through the client that
  the field holds afterwards.
\<close>

lemma get_client_step:
  assumes "get_client env self w = (r, self', w')"
  shows "((client self' = client self \<and> clients_made w' = clients_made w) \<or>
          (client self = None \<and> client self' \<noteq> None \<and>
           clients_made w' = Suc (clients_made w))) \<and>
         (\<forall>c. r = Inr c \<longrightarrow> client self' = Some c) \<and>
         exchanges w' = exchanges w \<and> model self' = model self"
  using assms
  by (auto simp: get_client_def OpenAI_new_def split: option.splits prod.splits sum.splits)

lemma try_request_step:
  assumes "try_request env self msgs mo w = (r, self', w')"
  shows "((client self' = client self \<and> clients_made w' = clients_made w) \<or>
          (client self = None \<and> client self' \<noteq> None \<and>
           clients_made w' = Suc (clients_made w))) \<and>
         (\<exists>new. exchanges w' = exchanges w @ new \<and>
                (\<forall>x\<in>set new. \<exists>c. client self' = Some c \<and> fst x = client_id c))"
  using assms
  by (auto simp: try_request_def chat_completions_create_def Let_def
           dest!: get_client_step split: prod.splits sum.splits)

lemma image2page_step:
  assumes "image2page env self a w = (r, self', w')"
  shows "((client self' = client self \<and> clients_made w' = clients_made w) \<or>
          (client self = None \<and> client self' \<noteq> None \<and>
           clients_made w' = Suc (clients_made w))) \<and>
         (\<exists>new. exchanges w' = exchanges w @ new \<and>
                (\<forall>x\<in>set new. \<exists>c. client self' = Some c \<and> fst x = client_id c))"
  using assms
  by (auto simp: image2page_def check_aborted_def Let_def
           dest!: try_request_step split: prod.splits sum.splits)

lemma backend_call_step:
  assumes "backend_call env c (self, w) = (self', w')"
  shows "((client self' = client self \<and> clients_made w' = clients_made w) \<or>
          (client self = None \<and> client self' \<noteq> None \<and>
           clients_made w' = Suc (clients_made w))) \<and>
         (\<exists>new. exchanges w' = exchanges w @ new \<and>
                (\<forall>x\<in>set new. \<exists>c. client self' = Some c \<and> fst x = client_id c))"
proof (cases c)
  case (Call_download_models rev)
  with assms show ?thesis by (simp add: backend_call_def download_models_def)
next
  case Call_load_models
  with assms show ?thesis by (simp add: backend_call_def load_models_def)
next
  case Call_get_client
  with assms obtain r where g: "get_client env self w = (r, self', w')"
    by (cases "get_client env self w") (auto simp: backend_call_def)
  from get_client_step [OF g] show ?thesis by simp
next
  case (Call_image2page a)
  with assms obtain r where g: "image2page env self a w = (r, self', w')"
    by (cases "image2page env self a w") (auto simp: backend_call_def)
  from image2page_step [OF g] show ?thesis .
qed

lemma backend_calls_keep_client:
  assumes "client self = Some c"
      and "backend_calls env cs (self, w) = (self', w')"
  shows "client self' = Some c \<and> clients_made w' = clients_made w \<and>
         (\<exists>new. exchanges w' = exchanges w @ new \<and> (\<forall>x\<in>set new. fst x = client_id c))"
  using assms
proof (induction cs arbitrary: self w)
  case Nil
  then show ?case by simp
next
  case (Cons k ks)
  obtain s1 w1 where step: "backend_call env k (self, w) = (s1, w1)"
    by (cases "backend_call env k (self, w)")
  from backend_call_step [OF step] Cons.prems(1)
  have c1: "client s1 = Some c" and m1: "clients_made w1 = clients_made w"
    and "\<exists>new. exchanges w1 = exchanges w @ new \<and> (\<forall>x\<in>set new. fst x = client_id c)"
    by auto
  then obtain new1 where n1: "exchanges w1 = exchanges w @ new1" "\<forall>x\<in>set new1. fst x = client_id c"
    by blast
  from Cons.prems(2) step have rest: "backend_calls env ks (s1, w1) = (self', w')"
    by simp
  from Cons.IH [OF c1 rest] obtain new2 where
    "client self' = Some c" "clients_made w' = clients_made w1"
    "exchanges w' = exchanges w1 @ new2" "\<forall>x\<in>set new2. fst x = client_id c"
    by blast
  with m1 n1 show ?case
    by (intro conjI exI [of _ "new1 @ new2"]) auto
qed

lemma backend_calls_at_most_one_client:
  assumes "backend_calls env cs (self, w) = (self', w')"
  shows "clients_made w' \<le> Suc (clients_made w) \<and>
         (client self \<noteq> None \<longrightarrow> clients_made w' = clients_made w)"
  using assms
proof (induction cs arbitrary: self w)
  case Nil
  then show ?case by simp
next
  case (Cons k ks)
  obtain s1 w1 where step: "backend_call env k (self, w) = (s1, w1)"
    by (cases "backend_call env k (self, w)")
  from Cons.prems step have rest: "backend_calls env ks (s1, w1) = (self', w')"
    by simp
  from backend_call_step [OF step] Cons.IH [OF rest] show ?case
    by auto
qed


text \<open>
  Claim C8. A new backend has no client. The first \<^verbatim>\<open>_get_client\<close> on a backend without
  client constructs one (if the constructor does not raise), stores it and returns it. Over
  any sequence of calls of the backend's methods at most one client is constructed. Once the
  field holds a client \<open>c\<close>, \<^verbatim>\<open>_get_client\<close> returns \<open>c\<close> without constructing, and after
  any sequence of calls of \<^verbatim>\<open>download_models\<close>, \<^verbatim>\<open>load_models\<close>, \<^verbatim>\<open>_get_client\<close> and
  \<^verbatim>\<open>image2page\<close> the field still holds \<open>c\<close>, no further client has been constructed, and
  every request made went through \<open>c\<close>.
\<close>

theorem client_is_lazy_and_kept:
  "client (APIPageExtractor_init key url mdl) = None \<and>
   (client s0 = None \<and> openai_raises env w0 (api_key s0) (base_url s0) = None \<longrightarrow>
      (\<exists>c. get_client env s0 w0 =
             (Inr c, s0\<lparr>client := Some c\<rparr>, w0\<lparr>clients_made := Suc (clients_made w0)\<rparr>))) \<and>
   (backend_calls env cs0 (s0, w0) = (s0', w0') \<longrightarrow>
      clients_made w0' \<le> Suc (clients_made w0)) \<and>
   (client s1 = Some c \<longrightarrow> get_client env s1 w1 = (Inr c, s1, w1)) \<and>
   (client s1 = Some c \<and> backend_calls env cs1 (s1, w1) = (s1', w1') \<longrightarrow>
      client s1' = Some c \<and> clients_made w1' = clients_made w1 \<and>
      (\<exists>new. exchanges w1' = exchanges w1 @ new \<and> (\<forall>x\<in>set new. fst x = client_id c)))"
proof (intro conjI impI)
  show "client (APIPageExtractor_init key url mdl) = None"
    by (simp add: APIPageExtractor_init_def)
  show "\<exists>c. get_client env s0 w0 =
             (Inr c, s0\<lparr>client := Some c\<rparr>, w0\<lparr>clients_made := Suc (clients_made w0)\<rparr>)"
    if "client s0 = None \<and> openai_raises env w0 (api_key s0) (base_url s0) = None"
    using that by (simp add: get_client_def OpenAI_new_def)
  show "clients_made w0' \<le> Suc (clients_made w0)"
    if "backend_calls env cs0 (s0, w0) = (s0', w0')"
    using backend_calls_at_most_one_client [OF that] by simp
  show "get_client env s1 w1 = (Inr c, s1, w1)" if "client s1 = Some c"
    using that by (simp add: get_client_def)
  show "client s1' = Some c" "clients_made w1' = clients_made w1"
    "\<exists>new. exchanges w1' = exchanges w1 @ new \<and> (\<forall>x\<in>set new. fst x = client_id c)"
    if "client s1 = Some c \<and> backend_calls env cs1 (s1, w1) = (s1', w1')"
    using backend_calls_keep_client [of s1 c env cs1 w1 s1' w1'] that by simp_all
qed

theorem client_is_lazy_and_kept_witness:
  "client fresh_backend = None \<and>
   get_client (stub_env (Inr (stub_response None Missing))) fresh_backend fresh_world =
     (Inr stub_client, fresh_backend\<lparr>client := Some stub_client\<rparr>,
      fresh_world\<lparr>clients_made := 1\<rparr>) \<and>
   clients_made (snd (backend_calls (stub_env (Inr (stub_response None Missing)))
       [Call_load_models, Call_image2page (stub_args never_aborted), Call_get_client,
        Call_image2page (stub_args never_aborted)]
       (fresh_backend, fresh_world))) \<le> 1 \<and>
   client (fst (backend_calls (stub_env (Inr (stub_response None Missing)))
       [Call_image2page (stub_args never_aborted), Call_download_models None, Call_get_client,
        Call_image2page (stub_args aborted_after_response)]
       (fresh_backend\<lparr>client := Some stub_client\<rparr>, fresh_world\<lparr>clients_made := 1\<rparr>))) =
     Some stub_client \<and>
   clients_made (snd (backend_calls (stub_env (Inr (stub_response None Missing)))
       [Call_image2page (stub_args never_aborted), Call_download_models None, Call_get_client,
        Call_image2page (stub_args aborted_after_response)]
       (fresh_backend\<lparr>client := Some stub_client\<rparr>, fresh_world\<lparr>clients_made := 1\<rparr>))) = 1"
proof -
  let ?env = "stub_env (Inr (stub_response None Missing))"
  let ?cs0 = "[Call_load_models, Call_image2page (stub_args never_aborted), Call_get_client,
        Call_image2page (stub_args never_aborted)]"
  let ?cs1 = "[Call_image2page (stub_args never_aborted), Call_download_models None,
        Call_get_client, Call_image2page (stub_args aborted_after_response)]"
  let ?s1 = "fresh_backend\<lparr>client := Some stub_client\<rparr>"
  let ?w1 = "fresh_world\<lparr>clients_made := 1\<rparr>"
  have none: "client fresh_backend = None"
    by (simp add: fresh_backend_def APIPageExtractor_init_def)
  have ctor: "openai_raises ?env fresh_world (api_key fresh_backend) (base_url fresh_backend) = None"
    by (simp add: stub_env_def)
  have made: "clients_made fresh_world = 0"
    by (simp add: fresh_world_def)
  have some: "client ?s1 = Some stub_client"
    by simp
  note t = client_is_lazy_and_kept
    [where env = ?env and ?s0.0 = fresh_backend and ?w0.0 = fresh_world and ?cs0.0 = ?cs0
       and s0' = "fst (backend_calls ?env ?cs0 (fresh_backend, fresh_world))"
       and w0' = "snd (backend_calls ?env ?cs0 (fresh_backend, fresh_world))"
       and ?s1.0 = ?s1 and ?w1.0 = ?w1 and c = stub_client and ?cs1.0 = ?cs1
       and s1' = "fst (backend_calls ?env ?cs1 (?s1, ?w1))"
       and w1' = "snd (backend_calls ?env ?cs1 (?s1, ?w1))"]
  have run: "get_client ?env fresh_backend fresh_world =
     (Inr stub_client, fresh_backend\<lparr>client := Some stub_client\<rparr>,
      fresh_world\<lparr>clients_made := 1\<rparr>)"
    by (simp add: get_client_def OpenAI_new_def none ctor made stub_client_def)
  from t none ctor made some run show ?thesis
    by simp
qed

end
